theory Spec2Isabelle
  imports Main
begin

section \<open>Data model of \<open>askbot/views/avatar_views.py\<close>\<close>

text \<open>
  The module is Python 2 on Django: \<open>filter\<close> and \<open>map\<close> return lists and run at
  once. An exception is a value \<open>Inl e\<close> of the result.
\<close>

datatype error = AttributeError | Http404 | DoesNotExist

text \<open>A row of the \<open>Avatar\<close> table: its primary key, the key of its user, its flag.\<close>

record avatar =
  avatar_id :: int
  avatar_user_id :: int
  primary :: bool

text \<open>A row of the \<open>User\<close> table; \<open>avatar_type\<close> is \<open>''g''\<close> (gravatar), \<open>''n''\<close>
  (default avatar) or \<open>''a''\<close> (uploaded avatar).\<close>

record user =
  user_id :: int
  avatar_type :: string

text \<open>The two tables, each in storage order.\<close>

record db =
  users :: "user list"
  avatars :: "avatar list"

text \<open>
  The dictionary built for one avatar in \<open>get_avatar_data\<close>: the key \<open>'id'\<close> is
  missing for the gravatar and the default avatar.
\<close>

record datum =
  d_id :: "int option"
  d_avatar_type :: string
  d_url :: string
  is_primary :: bool

text \<open>
  The methods that compute a URL (\<open>Avatar.avatar_url\<close>, \<open>User.get_gravatar_url\<close>,
  \<open>User.get_default_avatar_url\<close>) are defined outside the module: they are parameters.
\<close>

record services =
  avatar_url :: "avatar \<Rightarrow> int \<Rightarrow> string"
  get_gravatar_url :: "user \<Rightarrow> int \<Rightarrow> string"
  get_default_avatar_url :: "user \<Rightarrow> int \<Rightarrow> string"

section \<open>\<open>get_avatar_data\<close>\<close>

text \<open>\<open>user.avatar_set.all()\<close>: the avatars of the user, in storage order.\<close>

definition avatar_set :: "db \<Rightarrow> user \<Rightarrow> avatar list" where
  "avatar_set d u = filter (\<lambda>a. avatar_user_id a = user_id u) (avatars d)"

text \<open>Lines 40 to 47: the loop appends one dictionary for each uploaded avatar.\<close>

fun iterate_avatars :: "services \<Rightarrow> int \<Rightarrow> avatar list \<Rightarrow> datum list \<Rightarrow> datum list" where
  "iterate_avatars S avatar_size [] avatar_data = avatar_data"
| "iterate_avatars S avatar_size (a # rest) avatar_data =
     iterate_avatars S avatar_size rest
       (avatar_data @
         [\<lparr>d_id = Some (avatar_id a), d_avatar_type = ''uploaded_avatar'',
           d_url = avatar_url S a avatar_size, is_primary = primary a\<rparr>])"

text \<open>Lines 37 to 63: the list before any correction of the flags.\<close>

definition list_candidates :: "services \<Rightarrow> db \<Rightarrow> user \<Rightarrow> int \<Rightarrow> datum list" where
  "list_candidates S d u avatar_size =
     (let avatar_data = iterate_avatars S avatar_size (avatar_set d u) [];
          gravatar_datum = \<lparr>d_id = None, d_avatar_type = ''gravatar'',
            d_url = get_gravatar_url S u avatar_size, is_primary = (avatar_type u = ''g'')\<rparr>;
          avatar_data = avatar_data @ [gravatar_datum];
          default_datum = \<lparr>d_id = None, d_avatar_type = ''default_avatar'',
            d_url = get_default_avatar_url S u avatar_size, is_primary = (avatar_type u = ''n'')\<rparr>
      in avatar_data @ [default_datum])"

text \<open>
  Lines 66 to 81 mutate dictionaries that \<open>avatar_data\<close> and \<open>primary_avatars\<close> share.
  The list \<open>avatar_data\<close> is the store and a reference to a dictionary is its index there.
\<close>

definition primary_refs :: "datum list \<Rightarrow> nat list" where
  "primary_refs avatar_data =
     filter (\<lambda>i. is_primary (avatar_data ! i)) [0..<length avatar_data]"

text \<open>
  Line 70 reads \<open>v.type\<close>, an attribute, of a dictionary; a \<open>dict\<close> has no attribute
  \<open>type\<close> (its key is \<open>'avatar_type'\<close>), so the read raises \<open>AttributeError\<close>.
\<close>

definition attr_type :: "datum \<Rightarrow> error + string" where
  "attr_type v = Inl AttributeError"

text \<open>Lines 69 to 72: \<open>filter\<close> calls the lambda on each element, in order.\<close>

fun filter_gravatars :: "datum list \<Rightarrow> nat list \<Rightarrow> error + nat list" where
  "filter_gravatars avatar_data [] = Inr []"
| "filter_gravatars avatar_data (r # rs) =
     (case attr_type (avatar_data ! r) of
        Inl e \<Rightarrow> Inl e
      | Inr t \<Rightarrow>
          (case filter_gravatars avatar_data rs of
             Inl e \<Rightarrow> Inl e
           | Inr gs \<Rightarrow> Inr (if t = ''gravatar'' then r # gs else gs)))"

definition clear_primary :: "nat \<Rightarrow> datum list \<Rightarrow> datum list" where
  "clear_primary r avatar_data = avatar_data[r := (avatar_data ! r)\<lparr>is_primary := False\<rparr>]"

definition mark_primary :: "nat \<Rightarrow> datum list \<Rightarrow> datum list" where
  "mark_primary r avatar_data = avatar_data[r := (avatar_data ! r)\<lparr>is_primary := True\<rparr>]"

text \<open>Lines 66 to 81: force one primary avatar when more than one is flagged.\<close>

definition force_one_primary :: "datum list \<Rightarrow> error + datum list" where
  "force_one_primary avatar_data =
     (let primary_avatars = primary_refs avatar_data
      in if length primary_avatars > 1 then
           (case filter_gravatars avatar_data primary_avatars of
              Inl e \<Rightarrow> Inl e
            | Inr gravatars \<Rightarrow>
                (let cleared = fold clear_primary primary_avatars avatar_data
                 in if length gravatars \<noteq> 0 then Inr (mark_primary (hd gravatars) cleared)
                    else Inr (mark_primary (hd primary_avatars) cleared)))
         else Inr avatar_data)"

text \<open>
  Lines 84 to 88: the first flagged dictionary is removed (\<open>list.remove\<close> takes out the
  first element equal to it) and inserted at index 0.
\<close>

definition insert_primary_first :: "datum list \<Rightarrow> datum list" where
  "insert_primary_first avatar_data =
     (case filter is_primary avatar_data of
        [] \<Rightarrow> avatar_data
      | primary_avatar # _ \<Rightarrow> primary_avatar # remove1 primary_avatar avatar_data)"

text \<open>Lines 65 to 88: what \<open>get_avatar_data\<close> does to the list it has built.\<close>

definition normalize :: "datum list \<Rightarrow> error + datum list" where
  "normalize avatar_data =
     (case force_one_primary avatar_data of
        Inl e \<Rightarrow> Inl e
      | Inr forced \<Rightarrow> Inr (insert_primary_first forced))"

definition get_avatar_data :: "services \<Rightarrow> db \<Rightarrow> user \<Rightarrow> int \<Rightarrow> error + (datum list \<times> bool)" where
  "get_avatar_data S d u avatar_size =
     (let avatars = avatar_set d u
      in case normalize (list_candidates S d u avatar_size) of
           Inl e \<Rightarrow> Inl e
         | Inr avatar_data \<Rightarrow> Inr (avatar_data, length avatars \<noteq> 0))"

section \<open>Requests, responses and the tables\<close>

text \<open>What the handlers read of \<open>request.user\<close> and of the request.\<close>

record request_user =
  is_authenticated :: bool
  caller_id :: int
  is_administrator :: bool
  is_administrator_or_moderator :: bool

record request =
  req_user :: request_user
  req_method :: string

datatype response = Redirect_show_list int | Redirect_login

type_synonym view = "request \<Rightarrow> int \<Rightarrow> db \<Rightarrow> error + (response \<times> db)"

definition redirect_to_show_list :: "int \<Rightarrow> response" where
  "redirect_to_show_list uid = Redirect_show_list uid"

text \<open>\<open>get_object_or_404(User, pk=...)\<close> and \<open>get_object_or_404(Avatar, pk=...)\<close>
  before the error is raised: the row with that key, if there is one.\<close>

definition get_user :: "db \<Rightarrow> int \<Rightarrow> user option" where
  "get_user d pk = find (\<lambda>r. user_id r = pk) (users d)"

definition get_avatar :: "db \<Rightarrow> int \<Rightarrow> avatar option" where
  "get_avatar d pk = find (\<lambda>r. avatar_id r = pk) (avatars d)"

text \<open>\<open>user.save()\<close>: the row with the key of \<open>u\<close> is overwritten, or inserted when
  there is none.\<close>

definition user_save :: "user \<Rightarrow> db \<Rightarrow> db" where
  "user_save u d =
     d\<lparr>users :=
        (if list_ex (\<lambda>r. user_id r = user_id u) (users d)
         then map (\<lambda>r. if user_id r = user_id u then u else r) (users d)
         else users d @ [u])\<rparr>"

text \<open>\<open>user.avatar_set.update(primary=...)\<close>: one write to every avatar of the user.\<close>

definition avatar_set_update_primary :: "user \<Rightarrow> bool \<Rightarrow> db \<Rightarrow> db" where
  "avatar_set_update_primary u v d =
     d\<lparr>avatars :=
        map (\<lambda>a. if avatar_user_id a = user_id u then a\<lparr>primary := v\<rparr> else a) (avatars d)\<rparr>"

text \<open>The row that \<open>avatar.delete()\<close> removes.\<close>

definition avatar_delete :: "avatar \<Rightarrow> db \<Rightarrow> db" where
  "avatar_delete a d = d\<lparr>avatars := filter (\<lambda>r. avatar_id r \<noteq> avatar_id a) (avatars d)\<rparr>"

section \<open>The decorator\<close>

text \<open>
  \<open>login_required\<close> is Django's decorator (\<open>django.contrib.auth.decorators\<close>, imported
  on line 6): the view it returns calls the wrapped view when
  \<open>request.user.is_authenticated()\<close> holds and redirects to the login page otherwise.
\<close>

definition login_required :: "view \<Rightarrow> view" where
  "login_required func request uid d =
     (if is_authenticated (req_user request) then func request uid d
      else Inr (Redirect_login, d))"

text \<open>Lines 12 to 22.\<close>

definition admin_or_owner_required :: "view \<Rightarrow> view" where
  "admin_or_owner_required func request uid d =
     (if is_authenticated (req_user request) then
        (if is_administrator (req_user request) \<or> caller_id (req_user request) = uid
         then func request uid d
         else login_required func request uid d)
      else login_required func request uid d)"

section \<open>The handlers\<close>

text \<open>Lines 171 to 177, the function that the decorator wraps.\<close>

definition enable_gravatar_body :: view where
  "enable_gravatar_body request uid d =
     (if req_method request = ''POST'' then
        (case get_user d uid of
           None \<Rightarrow> Inl Http404
         | Some u \<Rightarrow>
             (let u = u\<lparr>avatar_type := ''g''\<rparr>;
                  d = user_save u d;
                  d = avatar_set_update_primary u False d
              in Inr (redirect_to_show_list uid, d)))
      else Inr (redirect_to_show_list uid, d))"

definition enable_gravatar :: view where
  "enable_gravatar = admin_or_owner_required enable_gravatar_body"

text \<open>Lines 181 to 187.\<close>

definition enable_default_avatar_body :: view where
  "enable_default_avatar_body request uid d =
     (if req_method request = ''POST'' then
        (case get_user d uid of
           None \<Rightarrow> Inl Http404
         | Some u \<Rightarrow>
             (let u = u\<lparr>avatar_type := ''n''\<rparr>;
                  d = user_save u d;
                  d = avatar_set_update_primary u False d
              in Inr (redirect_to_show_list uid, d)))
      else Inr (redirect_to_show_list uid, d))"

definition enable_default_avatar :: view where
  "enable_default_avatar = admin_or_owner_required enable_default_avatar_body"

text \<open>
  Lines 153 to 167. \<open>avatar.user\<close> is read from the table once and cached on
  \<open>avatar\<close>; a missing row raises \<open>DoesNotExist\<close>. \<open>avatar.delete()\<close> removes the row and
  then notifies the receivers of the model's delete signal, which are connected outside
  the module. Lines 160 and 162 keep \<open>avatar_type\<close> across that call, so the receivers
  are taken to overwrite \<open>avatar_type\<close> of the cached user and to save it: the value
  they write is the parameter \<open>post_delete\<close> (for receivers that write nothing it
  returns the \<open>avatar_type\<close> it is given).
\<close>

definition delete ::
  "(avatar \<Rightarrow> user \<Rightarrow> db \<Rightarrow> string) \<Rightarrow> request \<Rightarrow> int \<Rightarrow> db \<Rightarrow> error + (response \<times> db)" where
  "delete post_delete request aid d =
     (case get_avatar d aid of
        None \<Rightarrow> Inl Http404
      | Some a \<Rightarrow>
          (let caller = req_user request
           in if req_method request = ''POST''
                 \<and> is_authenticated caller
                 \<and> (is_administrator_or_moderator caller \<or> avatar_user_id a = caller_id caller)
              then
                (case get_user d (avatar_user_id a) of
                   None \<Rightarrow> Inl DoesNotExist
                 | Some u \<Rightarrow>
                     (let captured = avatar_type u;
                          d = avatar_delete a d;
                          u = u\<lparr>avatar_type := post_delete a u d\<rparr>;
                          d = user_save u d;
                          u = u\<lparr>avatar_type := captured\<rparr>;
                          d = user_save u d;
                          d = (if captured = ''g'' then avatar_set_update_primary u False d else d)
                      in Inr (redirect_to_show_list (avatar_user_id a), d)))
              else Inr (redirect_to_show_list (avatar_user_id a), d)))"

section \<open>Concrete services for the examples\<close>

definition example_services :: services where
  "example_services =
     \<lparr>avatar_url = (\<lambda>a avatar_size. ''up''),
      get_gravatar_url = (\<lambda>u avatar_size. ''gr''),
      get_default_avatar_url = (\<lambda>u avatar_size. ''df'')\<rparr>"

section \<open>The list that \<open>get_avatar_data\<close> builds\<close>

lemma iterate_avatars_append:
  "iterate_avatars S sz as acc =
     acc @ map (\<lambda>a. \<lparr>d_id = Some (avatar_id a), d_avatar_type = ''uploaded_avatar'',
                      d_url = avatar_url S a sz, is_primary = primary a\<rparr>) as"
  by (induction as arbitrary: acc) simp_all

lemma list_candidates_eq:
  "list_candidates S d u sz =
     map (\<lambda>a. \<lparr>d_id = Some (avatar_id a), d_avatar_type = ''uploaded_avatar'',
               d_url = avatar_url S a sz, is_primary = primary a\<rparr>) (avatar_set d u)
     @ [\<lparr>d_id = None, d_avatar_type = ''gravatar'',
         d_url = get_gravatar_url S u sz, is_primary = (avatar_type u = ''g'')\<rparr>,
        \<lparr>d_id = None, d_avatar_type = ''default_avatar'',
         d_url = get_default_avatar_url S u sz, is_primary = (avatar_type u = ''n'')\<rparr>]"
  by (simp add: list_candidates_def iterate_avatars_append)

lemma length_primary_refs:
  "length (primary_refs xs) = length (filter is_primary xs)"
proof -
  have "filter is_primary (map ((!) xs) [0..<length xs]) =
        map ((!) xs) (filter (is_primary \<circ> (!) xs) [0..<length xs])"
    by (rule filter_map)
  then have "filter is_primary xs = map ((!) xs) (primary_refs xs)"
    by (simp add: map_nth primary_refs_def comp_def)
  then show ?thesis by simp
qed

lemma filter_gravatars_raises:
  "filter_gravatars xs rs = (if rs = [] then Inr [] else Inl AttributeError)"
  by (cases rs) (simp_all add: attr_type_def)

lemma force_one_primary_eq:
  "force_one_primary xs =
     (if 1 < length (filter is_primary xs) then Inl AttributeError else Inr xs)"
proof (cases "1 < length (filter is_primary xs)")
  case True
  then have "primary_refs xs \<noteq> []"
    using length_primary_refs [of xs] by auto
  with True show ?thesis
    by (simp add: force_one_primary_def Let_def length_primary_refs filter_gravatars_raises)
next
  case False
  then show ?thesis
    by (simp add: force_one_primary_def Let_def length_primary_refs)
qed

lemma normalize_eq:
  "normalize xs =
     (if 1 < length (filter is_primary xs) then Inl AttributeError
      else Inr (insert_primary_first xs))"
  by (simp add: normalize_def force_one_primary_eq)

lemma filter_insert_primary_first:
  "filter is_primary (insert_primary_first xs) = filter is_primary xs"
proof (cases "filter is_primary xs")
  case Nil
  then show ?thesis by (simp add: insert_primary_first_def)
next
  case (Cons p ps)
  then have "p \<in> set (filter is_primary xs)" by simp
  then have p: "is_primary p" by simp
  have "filter is_primary (remove1 p xs) = remove1 p (filter is_primary xs)"
    by (rule filter_remove1)
  with Cons p show ?thesis by (simp add: insert_primary_first_def)
qed

lemma insert_primary_first_idem:
  "insert_primary_first (insert_primary_first xs) = insert_primary_first xs"
proof (cases "filter is_primary xs")
  case Nil
  then show ?thesis by (simp add: insert_primary_first_def)
next
  case (Cons p ps)
  then have f: "filter is_primary (insert_primary_first xs) = p # ps"
    by (simp add: filter_insert_primary_first)
  from Cons have e: "insert_primary_first xs = p # remove1 p xs"
    by (simp add: insert_primary_first_def)
  show ?thesis
    using f e by (simp add: insert_primary_first_def [of "p # remove1 p xs"])
qed

lemma get_avatar_data_eq:
  "get_avatar_data S d u sz =
     (if 1 < length (filter is_primary (list_candidates S d u sz)) then Inl AttributeError
      else Inr (insert_primary_first (list_candidates S d u sz), avatar_set d u \<noteq> []))"
  by (simp add: get_avatar_data_def normalize_eq)

lemma filter_candidates:
  "filter is_primary (list_candidates S d u sz) =
     map (\<lambda>a. \<lparr>d_id = Some (avatar_id a), d_avatar_type = ''uploaded_avatar'',
               d_url = avatar_url S a sz, is_primary = primary a\<rparr>)
       (filter primary (avatar_set d u))
     @ (if avatar_type u = ''g''
        then [\<lparr>d_id = None, d_avatar_type = ''gravatar'',
               d_url = get_gravatar_url S u sz, is_primary = True\<rparr>] else [])
     @ (if avatar_type u = ''n''
        then [\<lparr>d_id = None, d_avatar_type = ''default_avatar'',
               d_url = get_default_avatar_url S u sz, is_primary = True\<rparr>] else [])"
  by (simp add: list_candidates_eq filter_map comp_def)

lemma count_candidates:
  "length (filter is_primary (list_candidates S d u sz)) =
     length (filter primary (avatar_set d u))
     + (if avatar_type u = ''g'' \<or> avatar_type u = ''n'' then 1 else 0)"
  by (simp add: filter_candidates)

lemma insert_primary_first_index:
  "filter is_primary (insert_primary_first xs) = [] \<or> is_primary (insert_primary_first xs ! 0)"
proof (cases "filter is_primary xs")
  case Nil
  then show ?thesis by (simp add: insert_primary_first_def)
next
  case (Cons p ps)
  then have "p \<in> set (filter is_primary xs)" by simp
  then have "is_primary p" by simp
  with Cons show ?thesis by (simp add: insert_primary_first_def)
qed

lemmas eval_defs = get_avatar_data_def normalize_def force_one_primary_def primary_refs_def
  insert_primary_first_def list_candidates_def avatar_set_def attr_type_def example_services_def
  upt_rec Let_def


text \<open>
  The list built on lines 37 to 63, read off the avatar table itself: one entry for each
  row of the user, in storage order, then the gravatar entry, then the default entry.
\<close>

lemma list_candidates_table:
  "list_candidates S d u sz =
     map (\<lambda>a. \<lparr>d_id = Some (avatar_id a), d_avatar_type = ''uploaded_avatar'',
               d_url = avatar_url S a sz, is_primary = primary a\<rparr>)
       (filter (\<lambda>a. avatar_user_id a = user_id u) (avatars d))
     @ [\<lparr>d_id = None, d_avatar_type = ''gravatar'',
         d_url = get_gravatar_url S u sz, is_primary = (avatar_type u = ''g'')\<rparr>,
        \<lparr>d_id = None, d_avatar_type = ''default_avatar'',
         d_url = get_default_avatar_url S u sz, is_primary = (avatar_type u = ''n'')\<rparr>]"
  by (simp add: list_candidates_eq avatar_set_def)

text \<open>Line 90 is reached only when at most one entry of that list is flagged.\<close>

lemma get_avatar_data_returns:
  "get_avatar_data S d u sz = Inr (l, b) \<Longrightarrow>
     length (filter is_primary (list_candidates S d u sz)) \<le> 1
     \<and> b = list_ex (\<lambda>a. avatar_user_id a = user_id u) (avatars d)"
  by (auto simp: get_avatar_data_eq avatar_set_def filter_empty_conv list_ex_iff
      split: if_splits)

text \<open>
  C6: for every user the list built on lines 37 to 63 should hold the uploaded avatars of
  the user in storage order, then the gravatar entry, then the default entry, and the
  call should return, as its second value, whether the user has an uploaded avatar. For
  user 1 with \<open>avatar_type = ''g''\<close> and one uploaded avatar that is primary (the table
  also holds an avatar of user 2) the list is built as said, with the uploaded entry and
  the gravatar entry both flagged, and the call then ends in \<open>AttributeError\<close> on line
  70: line 90 is not reached and no second value is returned.
\<close>

theorem get_avatar_data_gravatar_primary_upload:
  "list_candidates example_services
     \<lparr>users = [\<lparr>user_id = 1, avatar_type = ''g''\<rparr>, \<lparr>user_id = 2, avatar_type = ''n''\<rparr>],
      avatars = [\<lparr>avatar_id = 1, avatar_user_id = 2, primary = False\<rparr>,
                 \<lparr>avatar_id = 2, avatar_user_id = 1, primary = True\<rparr>]\<rparr>
     \<lparr>user_id = 1, avatar_type = ''g''\<rparr> 128 =
     [\<lparr>d_id = Some 2, d_avatar_type = ''uploaded_avatar'', d_url = ''up'', is_primary = True\<rparr>,
      \<lparr>d_id = None, d_avatar_type = ''gravatar'', d_url = ''gr'', is_primary = True\<rparr>,
      \<lparr>d_id = None, d_avatar_type = ''default_avatar'', d_url = ''df'', is_primary = False\<rparr>]
   \<and> get_avatar_data example_services
     \<lparr>users = [\<lparr>user_id = 1, avatar_type = ''g''\<rparr>, \<lparr>user_id = 2, avatar_type = ''n''\<rparr>],
      avatars = [\<lparr>avatar_id = 1, avatar_user_id = 2, primary = False\<rparr>,
                 \<lparr>avatar_id = 2, avatar_user_id = 1, primary = True\<rparr>]\<rparr>
     \<lparr>user_id = 1, avatar_type = ''g''\<rparr> 128 = Inl AttributeError"
  by (simp add: eval_defs)

section \<open>One primary entry, first in the list\<close>

text \<open>
  C1, as amended: when at most one entry of the list built is flagged (at most one
  uploaded avatar of the user is primary and \<open>avatar_type\<close> is \<open>''a''\<close>, or none is and
  \<open>avatar_type\<close> is \<open>''g''\<close> or \<open>''n''\<close>), \<open>get_avatar_data\<close> returns a list with as
  many flagged entries as were built, so at most one, and a flagged entry is at index 0.
\<close>

theorem get_avatar_data_primary_first:
  assumes "length (filter primary (avatar_set d u))
           + (if avatar_type u = ''g'' \<or> avatar_type u = ''n'' then 1 else 0) \<le> (1::nat)"
  shows "\<exists>l. get_avatar_data S d u sz = Inr (l, avatar_set d u \<noteq> [])
           \<and> length (filter is_primary l) =
               length (filter primary (avatar_set d u))
               + (if avatar_type u = ''g'' \<or> avatar_type u = ''n'' then 1 else 0)
           \<and> (filter is_primary l = [] \<or> is_primary (l ! 0))"
proof -
  let ?c = "list_candidates S d u sz"
  have le: "\<not> 1 < length (filter is_primary ?c)"
    using assms count_candidates [of S d u sz] by linarith
  have run: "get_avatar_data S d u sz = Inr (insert_primary_first ?c, avatar_set d u \<noteq> [])"
    using le by (simp add: get_avatar_data_eq)
  have cnt: "length (filter is_primary (insert_primary_first ?c)) =
               length (filter primary (avatar_set d u))
               + (if avatar_type u = ''g'' \<or> avatar_type u = ''n'' then 1 else 0)"
    by (simp only: filter_insert_primary_first count_candidates)
  show ?thesis
    using run cnt insert_primary_first_index [of ?c] by blast
qed

theorem get_avatar_data_primary_first_witness:
  "length (filter primary
      (avatar_set \<lparr>users = [\<lparr>user_id = 1, avatar_type = ''a''\<rparr>],
                   avatars = [\<lparr>avatar_id = 1, avatar_user_id = 1, primary = False\<rparr>,
                              \<lparr>avatar_id = 2, avatar_user_id = 1, primary = True\<rparr>]\<rparr>
         \<lparr>user_id = 1, avatar_type = ''a''\<rparr>)) + 0 \<le> (1::nat)
   \<and> get_avatar_data example_services
        \<lparr>users = [\<lparr>user_id = 1, avatar_type = ''a''\<rparr>],
         avatars = [\<lparr>avatar_id = 1, avatar_user_id = 1, primary = False\<rparr>,
                    \<lparr>avatar_id = 2, avatar_user_id = 1, primary = True\<rparr>]\<rparr>
        \<lparr>user_id = 1, avatar_type = ''a''\<rparr> 128 =
      Inr ([\<lparr>d_id = Some 2, d_avatar_type = ''uploaded_avatar'', d_url = ''up'', is_primary = True\<rparr>,
            \<lparr>d_id = Some 1, d_avatar_type = ''uploaded_avatar'', d_url = ''up'', is_primary = False\<rparr>,
            \<lparr>d_id = None, d_avatar_type = ''gravatar'', d_url = ''gr'', is_primary = False\<rparr>,
            \<lparr>d_id = None, d_avatar_type = ''default_avatar'', d_url = ''df'', is_primary = False\<rparr>],
           True)
   \<and> (\<exists>l. get_avatar_data example_services
        \<lparr>users = [\<lparr>user_id = 1, avatar_type = ''a''\<rparr>],
         avatars = [\<lparr>avatar_id = 1, avatar_user_id = 1, primary = False\<rparr>,
                    \<lparr>avatar_id = 2, avatar_user_id = 1, primary = True\<rparr>]\<rparr>
        \<lparr>user_id = 1, avatar_type = ''a''\<rparr> 128 = Inr (l, True)
        \<and> length (filter is_primary l) = 1 \<and> is_primary (l ! 0))"
proof -
  let ?d = "\<lparr>users = [\<lparr>user_id = 1, avatar_type = ''a''\<rparr>],
         avatars = [\<lparr>avatar_id = 1, avatar_user_id = 1, primary = False\<rparr>,
                    \<lparr>avatar_id = 2, avatar_user_id = 1, primary = True\<rparr>]\<rparr>"
  let ?u = "\<lparr>user_id = 1, avatar_type = ''a''\<rparr>"
  have s: "avatar_set ?d ?u = avatars ?d" by (simp add: avatar_set_def)
  have h: "length (filter primary (avatar_set ?d ?u))
           + (if avatar_type ?u = ''g'' \<or> avatar_type ?u = ''n'' then 1 else 0) \<le> (1::nat)"
    by (simp add: s)
  have e: "get_avatar_data example_services ?d ?u 128 =
      Inr ([\<lparr>d_id = Some 2, d_avatar_type = ''uploaded_avatar'', d_url = ''up'', is_primary = True\<rparr>,
            \<lparr>d_id = Some 1, d_avatar_type = ''uploaded_avatar'', d_url = ''up'', is_primary = False\<rparr>,
            \<lparr>d_id = None, d_avatar_type = ''gravatar'', d_url = ''gr'', is_primary = False\<rparr>,
            \<lparr>d_id = None, d_avatar_type = ''default_avatar'', d_url = ''df'', is_primary = False\<rparr>],
           True)"
    by (simp add: eval_defs)
  from get_avatar_data_primary_first [OF h, of example_services 128]
  obtain l where l: "get_avatar_data example_services ?d ?u 128 = Inr (l, avatar_set ?d ?u \<noteq> [])"
    and c: "length (filter is_primary l) = length (filter primary (avatar_set ?d ?u))
               + (if avatar_type ?u = ''g'' \<or> avatar_type ?u = ''n'' then 1 else 0)"
    and i: "filter is_primary l = [] \<or> is_primary (l ! 0)"
    by blast
  from c have c1: "length (filter is_primary l) = 1" by (simp add: s)
  then have "filter is_primary l \<noteq> []" by auto
  with i have i0: "is_primary (l ! 0)" by simp
  from l have l1: "get_avatar_data example_services ?d ?u 128 = Inr (l, True)" by (simp add: s)
  have "\<exists>l. get_avatar_data example_services ?d ?u 128 = Inr (l, True)
        \<and> length (filter is_primary l) = 1 \<and> is_primary (l ! 0)"
    using l1 c1 i0 by blast
  moreover have "length (filter primary (avatar_set ?d ?u)) + 0 \<le> (1::nat)" by (simp add: s)
  ultimately show ?thesis using e by blast
qed

text \<open>
  For a user whose \<open>avatar_type\<close> is \<open>''a''\<close> and who has no uploaded avatar, the list
  returned has no primary entry at all.
\<close>

theorem get_avatar_data_no_primary:
  "get_avatar_data example_services
     \<lparr>users = [\<lparr>user_id = 1, avatar_type = ''a''\<rparr>], avatars = []\<rparr>
     \<lparr>user_id = 1, avatar_type = ''a''\<rparr> 128 =
   Inr ([\<lparr>d_id = None, d_avatar_type = ''gravatar'', d_url = ''gr'', is_primary = False\<rparr>,
         \<lparr>d_id = None, d_avatar_type = ''default_avatar'', d_url = ''df'', is_primary = False\<rparr>],
        False)
   \<and> length (filter is_primary
        [\<lparr>d_id = None, d_avatar_type = ''gravatar'', d_url = ''gr'', is_primary = False\<rparr>,
         \<lparr>d_id = None, d_avatar_type = ''default_avatar'', d_url = ''df'', is_primary = False\<rparr>])
       = 0"
  by (simp add: eval_defs)

section \<open>More than one flagged entry\<close>

text \<open>
  C2: with two uploaded avatars both flagged primary and \<open>avatar_type = ''a''\<close> (so the
  gravatar entry is not flagged), the first uploaded avatar should come out as the one
  primary entry. The call ends in \<open>AttributeError\<close> on line 70 instead.
\<close>

theorem get_avatar_data_two_primary_raises:
  "get_avatar_data example_services
     \<lparr>users = [\<lparr>user_id = 1, avatar_type = ''a''\<rparr>],
      avatars = [\<lparr>avatar_id = 1, avatar_user_id = 1, primary = True\<rparr>,
                 \<lparr>avatar_id = 2, avatar_user_id = 1, primary = True\<rparr>]\<rparr>
     \<lparr>user_id = 1, avatar_type = ''a''\<rparr> 128 = Inl AttributeError"
  by (simp add: eval_defs)

text \<open>
  C3: lines 65 to 88 should return a list for every list they are given. For a list with
  an uploaded entry and the gravatar entry both flagged they raise \<open>AttributeError\<close>.
\<close>

theorem normalize_raises:
  "normalize
     [\<lparr>d_id = Some 1, d_avatar_type = ''uploaded_avatar'', d_url = ''up'', is_primary = True\<rparr>,
      \<lparr>d_id = None, d_avatar_type = ''gravatar'', d_url = ''gr'', is_primary = True\<rparr>,
      \<lparr>d_id = None, d_avatar_type = ''default_avatar'', d_url = ''df'', is_primary = False\<rparr>]
   = Inl AttributeError"
  by (simp add: eval_defs)

text \<open>
  C9: a list that lines 65 to 88 return is returned unchanged when they run on it again.
\<close>

theorem normalize_idempotent:
  "normalize xs = Inr ys \<Longrightarrow> normalize ys = Inr ys"
  by (auto simp: normalize_eq filter_insert_primary_first insert_primary_first_idem
      split: if_splits)

theorem normalize_idempotent_witness:
  "normalize
     [\<lparr>d_id = Some 1, d_avatar_type = ''uploaded_avatar'', d_url = ''up'', is_primary = False\<rparr>,
      \<lparr>d_id = None, d_avatar_type = ''gravatar'', d_url = ''gr'', is_primary = True\<rparr>,
      \<lparr>d_id = None, d_avatar_type = ''default_avatar'', d_url = ''df'', is_primary = False\<rparr>]
   = Inr
     [\<lparr>d_id = None, d_avatar_type = ''gravatar'', d_url = ''gr'', is_primary = True\<rparr>,
      \<lparr>d_id = Some 1, d_avatar_type = ''uploaded_avatar'', d_url = ''up'', is_primary = False\<rparr>,
      \<lparr>d_id = None, d_avatar_type = ''default_avatar'', d_url = ''df'', is_primary = False\<rparr>]
   \<and> normalize
     [\<lparr>d_id = None, d_avatar_type = ''gravatar'', d_url = ''gr'', is_primary = True\<rparr>,
      \<lparr>d_id = Some 1, d_avatar_type = ''uploaded_avatar'', d_url = ''up'', is_primary = False\<rparr>,
      \<lparr>d_id = None, d_avatar_type = ''default_avatar'', d_url = ''df'', is_primary = False\<rparr>]
   = Inr
     [\<lparr>d_id = None, d_avatar_type = ''gravatar'', d_url = ''gr'', is_primary = True\<rparr>,
      \<lparr>d_id = Some 1, d_avatar_type = ''uploaded_avatar'', d_url = ''up'', is_primary = False\<rparr>,
      \<lparr>d_id = None, d_avatar_type = ''default_avatar'', d_url = ''df'', is_primary = False\<rparr>]"
proof -
  have h: "normalize
     [\<lparr>d_id = Some 1, d_avatar_type = ''uploaded_avatar'', d_url = ''up'', is_primary = False\<rparr>,
      \<lparr>d_id = None, d_avatar_type = ''gravatar'', d_url = ''gr'', is_primary = True\<rparr>,
      \<lparr>d_id = None, d_avatar_type = ''default_avatar'', d_url = ''df'', is_primary = False\<rparr>]
   = Inr
     [\<lparr>d_id = None, d_avatar_type = ''gravatar'', d_url = ''gr'', is_primary = True\<rparr>,
      \<lparr>d_id = Some 1, d_avatar_type = ''uploaded_avatar'', d_url = ''up'', is_primary = False\<rparr>,
      \<lparr>d_id = None, d_avatar_type = ''default_avatar'', d_url = ''df'', is_primary = False\<rparr>]"
    by (simp add: eval_defs)
  show ?thesis using h normalize_idempotent [OF h] by simp
qed

section \<open>The tables under the writes of the handlers\<close>

lemma get_user_Some_id: "get_user d k = Some u \<Longrightarrow> user_id u = k"
  by (auto simp: get_user_def find_Some_iff)

lemma find_replace_rows:
  "find (\<lambda>r. user_id r = user_id u) (map (\<lambda>r. if user_id r = user_id u then u else r) rs) =
     (if list_ex (\<lambda>r. user_id r = user_id u) rs then Some u else None)"
  by (induction rs) auto

lemma find_append_row:
  "\<not> list_ex (\<lambda>r. user_id r = user_id u) rs \<Longrightarrow>
     find (\<lambda>r. user_id r = user_id u) (rs @ [u]) = Some u"
  by (induction rs) auto

lemma get_user_user_save: "get_user (user_save u d) (user_id u) = Some u"
  by (simp add: get_user_def user_save_def find_replace_rows find_append_row)

lemma avatars_user_save: "avatars (user_save u d) = avatars d"
  by (simp add: user_save_def)

lemma users_avatar_set_update_primary: "users (avatar_set_update_primary u v d) = users d"
  by (simp add: avatar_set_update_primary_def)

lemma users_avatar_delete: "users (avatar_delete a d) = users d"
  by (simp add: avatar_delete_def)

lemma get_user_avatar_set_update_primary:
  "get_user (avatar_set_update_primary u v d) k = get_user d k"
  by (simp add: get_user_def users_avatar_set_update_primary)

lemma avatar_set_update_primary_own:
  "user_id u' = user_id u \<Longrightarrow>
   avatar_set (avatar_set_update_primary u v d) u' = map (\<lambda>a. a\<lparr>primary := v\<rparr>) (avatar_set d u)"
proof -
  assume e: "user_id u' = user_id u"
  let ?f = "\<lambda>a. if avatar_user_id a = user_id u then a\<lparr>primary := v\<rparr> else a"
  have "filter (\<lambda>a. avatar_user_id a = user_id u) (map ?f (avatars d)) =
        map ?f (filter ((\<lambda>a. avatar_user_id a = user_id u) \<circ> ?f) (avatars d))"
    by (rule filter_map)
  also have "(\<lambda>a. avatar_user_id a = user_id u) \<circ> ?f = (\<lambda>a. avatar_user_id a = user_id u)"
    by (auto simp: fun_eq_iff)
  also have "map ?f (filter (\<lambda>a. avatar_user_id a = user_id u) (avatars d)) =
             map (\<lambda>a. a\<lparr>primary := v\<rparr>) (filter (\<lambda>a. avatar_user_id a = user_id u) (avatars d))"
    by (rule map_cong) auto
  finally show ?thesis
    using e by (simp add: avatar_set_def avatar_set_update_primary_def)
qed

lemma avatar_set_user_save: "avatar_set (user_save u d) u' = avatar_set d u'"
  by (simp add: avatar_set_def avatars_user_save)

lemma avatar_set_avatar_type: "avatar_set d (u\<lparr>avatar_type := t\<rparr>) = avatar_set d u"
  by (simp add: avatar_set_def)

lemma get_avatar_data_gravatar:
  assumes g: "avatar_type u = ''g''" and np: "list_all (\<lambda>a. \<not> primary a) (avatar_set d u)"
  shows "get_avatar_data S d u sz =
     Inr (\<lparr>d_id = None, d_avatar_type = ''gravatar'',
            d_url = get_gravatar_url S u sz, is_primary = True\<rparr>
          # map (\<lambda>a. \<lparr>d_id = Some (avatar_id a), d_avatar_type = ''uploaded_avatar'',
                      d_url = avatar_url S a sz, is_primary = False\<rparr>) (avatar_set d u)
          @ [\<lparr>d_id = None, d_avatar_type = ''default_avatar'',
               d_url = get_default_avatar_url S u sz, is_primary = False\<rparr>],
          avatar_set d u \<noteq> [])"
proof -
  let ?up = "\<lambda>a. \<lparr>d_id = Some (avatar_id a), d_avatar_type = ''uploaded_avatar'',
                      d_url = avatar_url S a sz, is_primary = primary a\<rparr>"
  let ?upF = "\<lambda>a. \<lparr>d_id = Some (avatar_id a), d_avatar_type = ''uploaded_avatar'',
                      d_url = avatar_url S a sz, is_primary = False\<rparr>"
  let ?G = "\<lparr>d_id = None, d_avatar_type = ''gravatar'',
            d_url = get_gravatar_url S u sz, is_primary = True\<rparr>"
  let ?D = "\<lparr>d_id = None, d_avatar_type = ''default_avatar'',
               d_url = get_default_avatar_url S u sz, is_primary = False\<rparr>"
  have m: "map ?up (avatar_set d u) = map ?upF (avatar_set d u)"
    using np by (intro map_cong) (auto simp: list_all_iff)
  have c: "list_candidates S d u sz = map ?upF (avatar_set d u) @ [?G, ?D]"
    using g m by (simp add: list_candidates_eq)
  have f: "filter is_primary (map ?upF (avatar_set d u)) = []"
    by (simp add: filter_empty_conv)
  have fc: "filter is_primary (list_candidates S d u sz) = [?G]"
    using f by (simp add: c)
  have nin: "?G \<notin> set (map ?upF (avatar_set d u))"
    by auto
  have "insert_primary_first (list_candidates S d u sz) = ?G # map ?upF (avatar_set d u) @ [?D]"
    using fc nin unfolding insert_primary_first_def c [symmetric]
    by (simp add: c remove1_append)
  then show ?thesis
    by (simp add: get_avatar_data_eq fc)
qed

lemma get_avatar_Some_id: "get_avatar d k = Some a \<Longrightarrow> avatar_id a = k"
  by (auto simp: get_avatar_def find_Some_iff)

lemma user_restore: "u\<lparr>avatar_type := x\<rparr>\<lparr>avatar_type := avatar_type u\<rparr> = u"
  by (cases u) simp

lemma avatars_avatar_delete:
  "avatars (avatar_delete a d) = filter (\<lambda>r. avatar_id r \<noteq> avatar_id a) (avatars d)"
  by (simp add: avatar_delete_def)

lemma delete_run:
  assumes post: "req_method request = ''POST''"
    and auth: "is_authenticated (req_user request)"
    and own: "is_administrator_or_moderator (req_user request)
              \<or> avatar_user_id a = caller_id (req_user request)"
    and av: "get_avatar d aid = Some a"
    and us: "get_user d (avatar_user_id a) = Some u"
  shows "delete post_delete request aid d =
     Inr (redirect_to_show_list (avatar_user_id a),
       (let d1 = user_save u
                  (user_save (u\<lparr>avatar_type := post_delete a u (avatar_delete a d)\<rparr>)
                     (avatar_delete a d))
        in if avatar_type u = ''g'' then avatar_set_update_primary u False d1 else d1))"
proof -
  let ?d = "avatar_delete a d"
  let ?w = "u\<lparr>avatar_type := post_delete a u ?d\<rparr>"
  have r: "?w\<lparr>avatar_type := avatar_type u\<rparr> = u" by (rule user_restore)
  have "delete post_delete request aid d =
     Inr (redirect_to_show_list (avatar_user_id a),
       (let d1 = user_save (?w\<lparr>avatar_type := avatar_type u\<rparr>) (user_save ?w ?d)
        in if avatar_type u = ''g''
           then avatar_set_update_primary (?w\<lparr>avatar_type := avatar_type u\<rparr>) False d1
           else d1))"
    using post auth own av us unfolding delete_def Let_def by simp
  then show ?thesis unfolding r .
qed

lemmas handler_defs = enable_gravatar_def admin_or_owner_required_def login_required_def
  enable_gravatar_body_def get_user_def get_avatar_def user_save_def
  avatar_set_update_primary_def avatar_delete_def redirect_to_show_list_def delete_def Let_def

lemma admin_or_owner_required_authenticated:
  "is_authenticated (req_user request) \<Longrightarrow>
     admin_or_owner_required func request uid d = func request uid d"
  by (simp add: admin_or_owner_required_def login_required_def)

section \<open>Who may call a handler\<close>

text \<open>
  C4: a caller who is authenticated, is not an administrator and is not the user in
  question should change nothing. Here user 2 posts \<open>enable_gravatar\<close> for user 1: the
  decorator hands the request to \<open>login_required\<close>, which runs the handler, and user 1
  ends with \<open>avatar_type = ''g''\<close> and the uploaded avatar no longer primary.
\<close>

theorem enable_gravatar_by_other_user:
  "enable_gravatar
     \<lparr>req_user = \<lparr>is_authenticated = True, caller_id = 2, is_administrator = False,
                   is_administrator_or_moderator = False\<rparr>,
      req_method = ''POST''\<rparr>
     1
     \<lparr>users = [\<lparr>user_id = 1, avatar_type = ''a''\<rparr>, \<lparr>user_id = 2, avatar_type = ''n''\<rparr>],
      avatars = [\<lparr>avatar_id = 1, avatar_user_id = 1, primary = True\<rparr>]\<rparr>
   = Inr (Redirect_show_list 1,
       \<lparr>users = [\<lparr>user_id = 1, avatar_type = ''g''\<rparr>, \<lparr>user_id = 2, avatar_type = ''n''\<rparr>],
        avatars = [\<lparr>avatar_id = 1, avatar_user_id = 1, primary = False\<rparr>]\<rparr>)"
  by (simp add: handler_defs)

section \<open>\<open>enable_gravatar\<close>\<close>

text \<open>
  C7: for a caller who is an administrator or the user, a POST for a user that exists
  sets \<open>avatar_type\<close> to \<open>''g''\<close> and clears the flag of every uploaded avatar of the
  user; the list computed afterwards starts with the gravatar entry as the one primary
  entry, then the uploaded avatars in storage order, then the default entry.
\<close>

theorem enable_gravatar_effect:
  assumes auth: "is_authenticated (req_user request)"
    and own: "is_administrator (req_user request) \<or> caller_id (req_user request) = uid"
    and post: "req_method request = ''POST''"
    and ex: "get_user d uid = Some u"
  shows "\<exists>d'. enable_gravatar request uid d = Inr (redirect_to_show_list uid, d')
           \<and> get_user d' uid = Some (u\<lparr>avatar_type := ''g''\<rparr>)
           \<and> avatar_set d' (u\<lparr>avatar_type := ''g''\<rparr>) =
               map (\<lambda>a. a\<lparr>primary := False\<rparr>) (avatar_set d u)
           \<and> get_avatar_data S d' (u\<lparr>avatar_type := ''g''\<rparr>) sz =
               Inr (\<lparr>d_id = None, d_avatar_type = ''gravatar'',
                      d_url = get_gravatar_url S (u\<lparr>avatar_type := ''g''\<rparr>) sz,
                      is_primary = True\<rparr>
                    # map (\<lambda>a. \<lparr>d_id = Some (avatar_id a), d_avatar_type = ''uploaded_avatar'',
                                d_url = avatar_url S (a\<lparr>primary := False\<rparr>) sz,
                                is_primary = False\<rparr>) (avatar_set d u)
                    @ [\<lparr>d_id = None, d_avatar_type = ''default_avatar'',
                         d_url = get_default_avatar_url S (u\<lparr>avatar_type := ''g''\<rparr>) sz,
                         is_primary = False\<rparr>],
                    avatar_set d u \<noteq> [])"
proof -
  let ?u = "u\<lparr>avatar_type := ''g''\<rparr>"
  let ?d = "avatar_set_update_primary ?u False (user_save ?u d)"
  have uid: "user_id u = uid" using ex by (rule get_user_Some_id)
  have run: "enable_gravatar request uid d = Inr (redirect_to_show_list uid, ?d)"
    using auth own post ex
    by (simp add: enable_gravatar_def admin_or_owner_required_def enable_gravatar_body_def Let_def)
  have row: "get_user ?d uid = Some ?u"
    using get_user_user_save [of ?u d] uid
    by (simp add: get_user_avatar_set_update_primary)
  have set: "avatar_set ?d ?u = map (\<lambda>a. a\<lparr>primary := False\<rparr>) (avatar_set d u)"
    by (simp add: avatar_set_update_primary_own avatar_set_user_save avatar_set_avatar_type)
  have np: "list_all (\<lambda>a. \<not> primary a) (avatar_set ?d ?u)"
    by (simp add: set list_all_iff)
  have "get_avatar_data S ?d ?u sz =
     Inr (\<lparr>d_id = None, d_avatar_type = ''gravatar'',
            d_url = get_gravatar_url S ?u sz, is_primary = True\<rparr>
          # map (\<lambda>a. \<lparr>d_id = Some (avatar_id a), d_avatar_type = ''uploaded_avatar'',
                      d_url = avatar_url S a sz, is_primary = False\<rparr>) (avatar_set ?d ?u)
          @ [\<lparr>d_id = None, d_avatar_type = ''default_avatar'',
               d_url = get_default_avatar_url S ?u sz, is_primary = False\<rparr>],
          avatar_set ?d ?u \<noteq> [])"
    by (rule get_avatar_data_gravatar [OF _ np]) simp
  then have list: "get_avatar_data S ?d ?u sz =
               Inr (\<lparr>d_id = None, d_avatar_type = ''gravatar'',
                      d_url = get_gravatar_url S ?u sz,
                      is_primary = True\<rparr>
                    # map (\<lambda>a. \<lparr>d_id = Some (avatar_id a), d_avatar_type = ''uploaded_avatar'',
                                d_url = avatar_url S (a\<lparr>primary := False\<rparr>) sz,
                                is_primary = False\<rparr>) (avatar_set d u)
                    @ [\<lparr>d_id = None, d_avatar_type = ''default_avatar'',
                         d_url = get_default_avatar_url S ?u sz,
                         is_primary = False\<rparr>],
                    avatar_set d u \<noteq> [])"
    by (simp add: set comp_def)
  show ?thesis using run row set list by blast
qed

theorem enable_gravatar_effect_witness:
  "enable_gravatar
     \<lparr>req_user = \<lparr>is_authenticated = True, caller_id = 1, is_administrator = False,
                   is_administrator_or_moderator = False\<rparr>,
      req_method = ''POST''\<rparr>
     1
     \<lparr>users = [\<lparr>user_id = 1, avatar_type = ''a''\<rparr>],
      avatars = [\<lparr>avatar_id = 1, avatar_user_id = 1, primary = True\<rparr>,
                 \<lparr>avatar_id = 2, avatar_user_id = 1, primary = False\<rparr>]\<rparr>
   = Inr (Redirect_show_list 1,
       \<lparr>users = [\<lparr>user_id = 1, avatar_type = ''g''\<rparr>],
        avatars = [\<lparr>avatar_id = 1, avatar_user_id = 1, primary = False\<rparr>,
                   \<lparr>avatar_id = 2, avatar_user_id = 1, primary = False\<rparr>]\<rparr>)
   \<and> get_avatar_data example_services
       \<lparr>users = [\<lparr>user_id = 1, avatar_type = ''g''\<rparr>],
        avatars = [\<lparr>avatar_id = 1, avatar_user_id = 1, primary = False\<rparr>,
                   \<lparr>avatar_id = 2, avatar_user_id = 1, primary = False\<rparr>]\<rparr>
       \<lparr>user_id = 1, avatar_type = ''g''\<rparr> 128
   = Inr ([\<lparr>d_id = None, d_avatar_type = ''gravatar'', d_url = ''gr'', is_primary = True\<rparr>,
           \<lparr>d_id = Some 1, d_avatar_type = ''uploaded_avatar'', d_url = ''up'', is_primary = False\<rparr>,
           \<lparr>d_id = Some 2, d_avatar_type = ''uploaded_avatar'', d_url = ''up'', is_primary = False\<rparr>,
           \<lparr>d_id = None, d_avatar_type = ''default_avatar'', d_url = ''df'', is_primary = False\<rparr>],
          True)"
proof -
  let ?r = "\<lparr>req_user = \<lparr>is_authenticated = True, caller_id = 1, is_administrator = False,
                   is_administrator_or_moderator = False\<rparr>,
      req_method = ''POST''\<rparr>"
  let ?u = "\<lparr>user_id = 1, avatar_type = ''a''\<rparr>"
  let ?d = "\<lparr>users = [?u],
      avatars = [\<lparr>avatar_id = 1, avatar_user_id = 1, primary = True\<rparr>,
                 \<lparr>avatar_id = 2, avatar_user_id = 1, primary = False\<rparr>]\<rparr>"
  let ?d' = "\<lparr>users = [\<lparr>user_id = 1, avatar_type = ''g''\<rparr>],
        avatars = [\<lparr>avatar_id = 1, avatar_user_id = 1, primary = False\<rparr>,
                   \<lparr>avatar_id = 2, avatar_user_id = 1, primary = False\<rparr>]\<rparr>"
  have h1: "is_authenticated (req_user ?r)" by simp
  have h2: "is_administrator (req_user ?r) \<or> caller_id (req_user ?r) = 1" by simp
  have h3: "req_method ?r = ''POST''" by simp
  have h4: "get_user ?d 1 = Some ?u" by (simp add: get_user_def)
  have e: "enable_gravatar ?r 1 ?d = Inr (Redirect_show_list 1, ?d')"
    by (simp add: handler_defs)
  from enable_gravatar_effect [OF h1 h2 h3 h4, of example_services 128]
  obtain d' where run: "enable_gravatar ?r 1 ?d = Inr (redirect_to_show_list 1, d')"
    and list: "get_avatar_data example_services d' (?u\<lparr>avatar_type := ''g''\<rparr>) 128 =
               Inr (\<lparr>d_id = None, d_avatar_type = ''gravatar'',
                      d_url = get_gravatar_url example_services (?u\<lparr>avatar_type := ''g''\<rparr>) 128,
                      is_primary = True\<rparr>
                    # map (\<lambda>a. \<lparr>d_id = Some (avatar_id a), d_avatar_type = ''uploaded_avatar'',
                                d_url = avatar_url example_services (a\<lparr>primary := False\<rparr>) 128,
                                is_primary = False\<rparr>) (avatar_set ?d ?u)
                    @ [\<lparr>d_id = None, d_avatar_type = ''default_avatar'',
                         d_url = get_default_avatar_url example_services (?u\<lparr>avatar_type := ''g''\<rparr>) 128,
                         is_primary = False\<rparr>],
                    avatar_set ?d ?u \<noteq> [])"
    by blast
  from run e have d': "d' = ?d'" by simp
  from list show ?thesis
    unfolding d' using e by (simp add: avatar_set_def example_services_def)
qed

section \<open>\<open>delete\<close>\<close>

text \<open>
  C8: for a POST by an authenticated caller who is an administrator, a moderator or the
  user of the avatar, the row is deleted and the remaining avatars of that user have
  their flag cleared when the \<open>avatar_type\<close> read before the row was deleted is
  \<open>''g''\<close>; for every other \<open>avatar_type\<close> the remaining rows are left as they were.
  What the receivers of the delete signal write in between does not matter.
\<close>

theorem delete_clears_primary_iff_gravatar:
  assumes post: "req_method request = ''POST''"
    and auth: "is_authenticated (req_user request)"
    and own: "is_administrator_or_moderator (req_user request)
              \<or> avatar_user_id a = caller_id (req_user request)"
    and av: "get_avatar d aid = Some a"
    and us: "get_user d (avatar_user_id a) = Some u"
  shows "\<exists>d'. delete post_delete request aid d = Inr (redirect_to_show_list (avatar_user_id a), d')
           \<and> avatars d' =
              (if avatar_type u = ''g''
               then map (\<lambda>r. if avatar_user_id r = avatar_user_id a then r\<lparr>primary := False\<rparr> else r)
                      (filter (\<lambda>r. avatar_id r \<noteq> aid) (avatars d))
               else filter (\<lambda>r. avatar_id r \<noteq> aid) (avatars d))"
proof -
  have uid: "user_id u = avatar_user_id a" using us by (rule get_user_Some_id)
  have aid: "avatar_id a = aid" using av by (rule get_avatar_Some_id)
  show ?thesis
    unfolding delete_run [OF post auth own av us]
    using uid aid
    by (simp add: Let_def avatar_set_update_primary_def avatars_user_save avatars_avatar_delete)
qed

theorem delete_clears_primary_iff_gravatar_witness:
  "delete (\<lambda>a u d. ''a'')
     \<lparr>req_user = \<lparr>is_authenticated = True, caller_id = 1, is_administrator = False,
                   is_administrator_or_moderator = False\<rparr>,
      req_method = ''POST''\<rparr>
     1
     \<lparr>users = [\<lparr>user_id = 1, avatar_type = ''g''\<rparr>],
      avatars = [\<lparr>avatar_id = 1, avatar_user_id = 1, primary = False\<rparr>,
                 \<lparr>avatar_id = 2, avatar_user_id = 1, primary = True\<rparr>,
                 \<lparr>avatar_id = 3, avatar_user_id = 2, primary = True\<rparr>]\<rparr>
   = Inr (Redirect_show_list 1,
       \<lparr>users = [\<lparr>user_id = 1, avatar_type = ''g''\<rparr>],
        avatars = [\<lparr>avatar_id = 2, avatar_user_id = 1, primary = False\<rparr>,
                   \<lparr>avatar_id = 3, avatar_user_id = 2, primary = True\<rparr>]\<rparr>)
   \<and> (\<exists>d'. delete (\<lambda>a u d. ''a'')
     \<lparr>req_user = \<lparr>is_authenticated = True, caller_id = 1, is_administrator = False,
                   is_administrator_or_moderator = False\<rparr>,
      req_method = ''POST''\<rparr>
     1
     \<lparr>users = [\<lparr>user_id = 1, avatar_type = ''g''\<rparr>],
      avatars = [\<lparr>avatar_id = 1, avatar_user_id = 1, primary = False\<rparr>,
                 \<lparr>avatar_id = 2, avatar_user_id = 1, primary = True\<rparr>,
                 \<lparr>avatar_id = 3, avatar_user_id = 2, primary = True\<rparr>]\<rparr>
     = Inr (Redirect_show_list 1, d')
     \<and> avatars d' = [\<lparr>avatar_id = 2, avatar_user_id = 1, primary = False\<rparr>,
                     \<lparr>avatar_id = 3, avatar_user_id = 2, primary = True\<rparr>])"
proof -
  let ?r = "\<lparr>req_user = \<lparr>is_authenticated = True, caller_id = 1, is_administrator = False,
                   is_administrator_or_moderator = False\<rparr>,
      req_method = ''POST''\<rparr>"
  let ?u = "\<lparr>user_id = 1, avatar_type = ''g''\<rparr>"
  let ?a = "\<lparr>avatar_id = 1, avatar_user_id = 1, primary = False\<rparr>"
  let ?d = "\<lparr>users = [?u],
      avatars = [?a,
                 \<lparr>avatar_id = 2, avatar_user_id = 1, primary = True\<rparr>,
                 \<lparr>avatar_id = 3, avatar_user_id = 2, primary = True\<rparr>]\<rparr>"
  have h1: "req_method ?r = ''POST''" by simp
  have h2: "is_authenticated (req_user ?r)" by simp
  have h3: "is_administrator_or_moderator (req_user ?r)
            \<or> avatar_user_id ?a = caller_id (req_user ?r)" by simp
  have h4: "get_avatar ?d 1 = Some ?a" by (simp add: get_avatar_def)
  have h5: "get_user ?d (avatar_user_id ?a) = Some ?u" by (simp add: get_user_def)
  have e: "delete (\<lambda>a u d. ''a'') ?r 1 ?d
   = Inr (Redirect_show_list 1,
       \<lparr>users = [\<lparr>user_id = 1, avatar_type = ''g''\<rparr>],
        avatars = [\<lparr>avatar_id = 2, avatar_user_id = 1, primary = False\<rparr>,
                   \<lparr>avatar_id = 3, avatar_user_id = 2, primary = True\<rparr>]\<rparr>)"
    by (simp add: handler_defs)
  have "\<exists>d'. delete (\<lambda>a u d. ''a'') ?r 1 ?d = Inr (Redirect_show_list 1, d')
     \<and> avatars d' = [\<lparr>avatar_id = 2, avatar_user_id = 1, primary = False\<rparr>,
                     \<lparr>avatar_id = 3, avatar_user_id = 2, primary = True\<rparr>]"
    using delete_clears_primary_iff_gravatar [OF h1 h2 h3 h4 h5, of "\<lambda>a u d. ''a''"]
    by (simp add: redirect_to_show_list_def)
  with e show ?thesis by blast
qed

text \<open>
  C10: under the same conditions the row of the avatar's user is the same after the
  call as before it, so its \<open>avatar_type\<close> is unchanged, whatever the receivers of the
  delete signal wrote in between.
\<close>

theorem delete_keeps_avatar_type:
  assumes post: "req_method request = ''POST''"
    and auth: "is_authenticated (req_user request)"
    and own: "is_administrator_or_moderator (req_user request)
              \<or> avatar_user_id a = caller_id (req_user request)"
    and av: "get_avatar d aid = Some a"
    and us: "get_user d (avatar_user_id a) = Some u"
  shows "\<exists>d'. delete post_delete request aid d = Inr (redirect_to_show_list (avatar_user_id a), d')
           \<and> get_user d' (avatar_user_id a) = Some u
           \<and> map_option avatar_type (get_user d' (avatar_user_id a)) =
               map_option avatar_type (get_user d (avatar_user_id a))"
proof -
  have uid: "user_id u = avatar_user_id a" using us by (rule get_user_Some_id)
  show ?thesis
    unfolding delete_run [OF post auth own av us]
    using uid us get_user_user_save [of u]
    by (auto simp: Let_def get_user_avatar_set_update_primary)
qed

theorem delete_keeps_avatar_type_witness:
  "delete (\<lambda>a u d. ''a'')
     \<lparr>req_user = \<lparr>is_authenticated = True, caller_id = 7, is_administrator = False,
                   is_administrator_or_moderator = True\<rparr>,
      req_method = ''POST''\<rparr>
     1
     \<lparr>users = [\<lparr>user_id = 1, avatar_type = ''n''\<rparr>],
      avatars = [\<lparr>avatar_id = 1, avatar_user_id = 1, primary = False\<rparr>,
                 \<lparr>avatar_id = 2, avatar_user_id = 1, primary = True\<rparr>]\<rparr>
   = Inr (Redirect_show_list 1,
       \<lparr>users = [\<lparr>user_id = 1, avatar_type = ''n''\<rparr>],
        avatars = [\<lparr>avatar_id = 2, avatar_user_id = 1, primary = True\<rparr>]\<rparr>)
   \<and> (\<exists>d'. delete (\<lambda>a u d. ''a'')
     \<lparr>req_user = \<lparr>is_authenticated = True, caller_id = 7, is_administrator = False,
                   is_administrator_or_moderator = True\<rparr>,
      req_method = ''POST''\<rparr>
     1
     \<lparr>users = [\<lparr>user_id = 1, avatar_type = ''n''\<rparr>],
      avatars = [\<lparr>avatar_id = 1, avatar_user_id = 1, primary = False\<rparr>,
                 \<lparr>avatar_id = 2, avatar_user_id = 1, primary = True\<rparr>]\<rparr>
     = Inr (Redirect_show_list 1, d')
     \<and> get_user d' 1 = Some \<lparr>user_id = 1, avatar_type = ''n''\<rparr>)"
proof -
  let ?r = "\<lparr>req_user = \<lparr>is_authenticated = True, caller_id = 7, is_administrator = False,
                   is_administrator_or_moderator = True\<rparr>,
      req_method = ''POST''\<rparr>"
  let ?u = "\<lparr>user_id = 1, avatar_type = ''n''\<rparr>"
  let ?a = "\<lparr>avatar_id = 1, avatar_user_id = 1, primary = False\<rparr>"
  let ?d = "\<lparr>users = [?u],
      avatars = [?a, \<lparr>avatar_id = 2, avatar_user_id = 1, primary = True\<rparr>]\<rparr>"
  have h1: "req_method ?r = ''POST''" by simp
  have h2: "is_authenticated (req_user ?r)" by simp
  have h3: "is_administrator_or_moderator (req_user ?r)
            \<or> avatar_user_id ?a = caller_id (req_user ?r)" by simp
  have h4: "get_avatar ?d 1 = Some ?a" by (simp add: get_avatar_def)
  have h5: "get_user ?d (avatar_user_id ?a) = Some ?u" by (simp add: get_user_def)
  have e: "delete (\<lambda>a u d. ''a'') ?r 1 ?d
   = Inr (Redirect_show_list 1,
       \<lparr>users = [\<lparr>user_id = 1, avatar_type = ''n''\<rparr>],
        avatars = [\<lparr>avatar_id = 2, avatar_user_id = 1, primary = True\<rparr>]\<rparr>)"
    by (simp add: handler_defs)
  have "\<exists>d'. delete (\<lambda>a u d. ''a'') ?r 1 ?d = Inr (Redirect_show_list 1, d')
     \<and> get_user d' 1 = Some ?u"
    using delete_keeps_avatar_type [OF h1 h2 h3 h4 h5, of "\<lambda>a u d. ''a''"]
    by (auto simp: redirect_to_show_list_def)
  with e show ?thesis by blast
qed

end
